theory Spec2Isabelle
  imports Complex_Main "HOL-Library.Log_Nat"
begin

section \<open>JavaScript strings\<close>

text \<open>
  A JavaScript string is a sequence of UTF-16 code units. A code unit is modelled by its
  number; \<open>js\<close> turns an ASCII literal into the code units it denotes.
\<close>

type_synonym code_unit = nat
type_synonym js_string = "code_unit list"

definition js :: "string \<Rightarrow> js_string" where
  "js s = map of_char s"

text \<open>The character classes of the regular expressions of the source.\<close>

definition isDigit :: "code_unit \<Rightarrow> bool" where
  \<comment> \<open>\<^verbatim>\<open>[0-9]\<close>, also \<^verbatim>\<open>\d\<close> and \<^verbatim>\<open>char >= '0' && char <= '9'\<close>\<close>
  "isDigit c = (48 \<le> c \<and> c \<le> 57)"

definition isUpper :: "code_unit \<Rightarrow> bool" where
  \<comment> \<open>\<^verbatim>\<open>[A-Z]\<close>, also \<^verbatim>\<open>char >= 'A' && char <= 'Z'\<close>\<close>
  "isUpper c = (65 \<le> c \<and> c \<le> 90)"

definition filler :: code_unit where
  \<comment> \<open>the character \<^verbatim>\<open><\<close>\<close>
  "filler = 60"

definition isMrzChar :: "code_unit \<Rightarrow> bool" where
  \<comment> \<open>\<^verbatim>\<open>[A-Z0-9<]\<close>\<close>
  "isMrzChar c = (isUpper c \<or> isDigit c \<or> c = filler)"

definition isWhiteSpace :: "code_unit \<Rightarrow> bool" where
  \<comment> \<open>\<^verbatim>\<open>\s\<close> of a regular expression, which is also what \<^verbatim>\<open>trim\<close> removes: the white space
      and line terminator code units of ECMAScript\<close>
  "isWhiteSpace c =
     (c \<in> {9, 10, 11, 12, 13, 32, 160, 5760, 8232, 8233, 8239, 8287, 12288, 65279}
      \<or> (8192 \<le> c \<and> c \<le> 8202))"

definition trim :: "js_string \<Rightarrow> js_string" where
  "trim s = rev (dropWhile isWhiteSpace (rev (dropWhile isWhiteSpace s)))"

definition substring :: "nat \<Rightarrow> nat \<Rightarrow> js_string \<Rightarrow> js_string" where
  \<comment> \<open>\<^verbatim>\<open>s.substring(a, b)\<close>: the bounds are clamped to the length, and swapped when \<open>a > b\<close>\<close>
  "substring a b s = take (max a b - min a b) (drop (min a b) s)"

definition stripTrailingFiller :: "js_string \<Rightarrow> js_string" where
  \<comment> \<open>\<^verbatim>\<open>s.replace(/<+$/, '')\<close>\<close>
  "stripTrailingFiller s = rev (dropWhile (\<lambda>c. c = filler) (rev s))"

definition fillerToSpace :: "js_string \<Rightarrow> js_string" where
  \<comment> \<open>\<^verbatim>\<open>s.replace(/</g, ' ')\<close>\<close>
  "fillerToSpace s = map (\<lambda>c. if c = filler then 32 else c) s"

fun splitFF :: "js_string \<Rightarrow> js_string \<Rightarrow> js_string list" where
  \<comment> \<open>\<^verbatim>\<open>s.split('<<')\<close>, scanning from the left; the first argument is the segment read so
      far, reversed\<close>
  "splitFF acc [] = [rev acc]"
| "splitFF acc [a] = [rev (a # acc)]"
| "splitFF acc (a # b # s) =
     (if a = filler \<and> b = filler then rev acc # splitFF [] s
      else splitFF (a # acc) (b # s))"

fun splitOn :: "code_unit \<Rightarrow> js_string \<Rightarrow> js_string \<Rightarrow> js_string list" where
  \<comment> \<open>\<^verbatim>\<open>s.split(c)\<close> for a separator of one code unit\<close>
  "splitOn sep acc [] = [rev acc]"
| "splitOn sep acc (a # s) =
     (if a = sep then rev acc # splitOn sep [] s else splitOn sep (a # acc) s)"

section \<open>JavaScript numbers in the MRZ parser\<close>

text \<open>
  The numbers of the parser are integers far below \<open>2 ^ 53\<close>, where the arithmetic of
  doubles is exact; they are modelled by \<open>int option\<close>, \<open>None\<close> being \<^verbatim>\<open>NaN\<close>.
\<close>

definition digitValue :: "nat \<Rightarrow> code_unit \<Rightarrow> nat option" where
  \<comment> \<open>the value of a digit of \<^verbatim>\<open>parseInt\<close> in the given radix\<close>
  "digitValue radix c =
     (let v = (if isDigit c then Some (c - 48)
               else if 97 \<le> c \<and> c \<le> 122 then Some (c - 97 + 10)
               else if isUpper c then Some (c - 65 + 10)
               else None)
      in case v of None \<Rightarrow> None | Some d \<Rightarrow> if d < radix then Some d else None)"

definition parseInt :: "js_string \<Rightarrow> int option" where
  \<comment> \<open>\<^verbatim>\<open>parseInt(s)\<close> with no radix: leading white space, a sign, a hexadecimal prefix, then
      the longest run of digits; \<^verbatim>\<open>NaN\<close> when that run is empty\<close>
  "parseInt s =
     (let s1 = dropWhile isWhiteSpace s;
          sign = (if take 1 s1 = [45] then - 1 else 1 :: int);
          s2 = (if take 1 s1 = [45] \<or> take 1 s1 = [43] then drop 1 s1 else s1);
          hex = (take 2 s2 = [48, 120] \<or> take 2 s2 = [48, 88]);
          radix = (if hex then 16 else 10 :: nat);
          s3 = (if hex then drop 2 s2 else s2);
          ds = takeWhile (\<lambda>c. digitValue radix c \<noteq> None) s3
      in if ds = [] then None
         else Some (sign * int (foldl (\<lambda>n c. n * radix
                                         + (case digitValue radix c of Some d \<Rightarrow> d | None \<Rightarrow> 0))
                                  0 ds)))"

function natToString :: "nat \<Rightarrow> js_string" where
  \<comment> \<open>the decimal digits of a natural number\<close>
  "natToString n = (if n < 10 then [48 + n] else natToString (n div 10) @ [48 + n mod 10])"
  by pat_completeness auto
termination
  by (relation "measure id") auto

definition numberToString :: "int option \<Rightarrow> js_string" where
  \<comment> \<open>\<^verbatim>\<open>String(n)\<close> for an integer or \<^verbatim>\<open>NaN\<close>\<close>
  "numberToString n =
     (case n of None \<Rightarrow> js ''NaN''
      | Some k \<Rightarrow> if k < 0 then 45 # natToString (nat (- k)) else natToString (nat k))"

definition jsRem :: "int \<Rightarrow> int \<Rightarrow> int" where
  \<comment> \<open>\<^verbatim>\<open>a % b\<close> on integers: the sign of the result is the sign of \<open>a\<close>\<close>
  "jsRem a b = sgn a * (\<bar>a\<bar> mod \<bar>b\<bar>)"

section \<open>The MRZ parser\<close>

record MRZData =
  documentType :: js_string
  issuingCountry :: js_string
  documentNumber :: js_string
  dateOfBirth :: js_string
  expiryDate :: js_string
  nationality :: js_string
  surname :: js_string
  givenNames :: js_string
  sex :: js_string
  checksumValid :: bool

definition parseDate :: "js_string \<Rightarrow> js_string" where
  "parseDate dateStr =
     (if dateStr = [] \<or> length dateStr \<noteq> 6 then []
      else
        let year = parseInt (substring 0 2 dateStr);
            month = substring 2 4 dateStr;
            day = substring 4 6 dateStr;
            fullYear = (case year of None \<Rightarrow> None
                        | Some y \<Rightarrow> if y < 50 then Some (2000 + y) else Some (1900 + y))
        in numberToString fullYear @ js ''-'' @ month @ js ''-'' @ day)"

definition weights :: "int list" where
  "weights = [7, 3, 1]"

definition charValue :: "code_unit \<Rightarrow> int option" where
  \<comment> \<open>the body of the loop of \<^verbatim>\<open>validateChecksum\<close> that sets \<^verbatim>\<open>value\<close>\<close>
  "charValue c =
     (if isDigit c then parseInt [c]
      else if isUpper c then Some (int c - 65 + 10)
      else Some 0)"

function checksumLoop :: "js_string \<Rightarrow> nat \<Rightarrow> int option \<Rightarrow> int option" where
  \<comment> \<open>the \<^verbatim>\<open>for\<close> loop of \<^verbatim>\<open>validateChecksum\<close>, from index \<open>i\<close> with the sum so far\<close>
  "checksumLoop data i acc =
     (if i < length data
      then checksumLoop data (i + 1)
             (case (acc, charValue (data ! i)) of
                (Some s, Some v) \<Rightarrow> Some (s + v * weights ! (i mod 3))
              | _ \<Rightarrow> None)
      else acc)"
  by pat_completeness auto
termination
  by (relation "measure (\<lambda>(data, i, acc). length data - i)") auto

definition validateChecksum :: "js_string \<Rightarrow> js_string \<Rightarrow> bool" where
  "validateChecksum data checksum =
     (let acc = checksumLoop data 0 (Some 0);
          calculatedChecksum = numberToString (map_option (\<lambda>s. jsRem s 10) acc)
      in calculatedChecksum = checksum)"

definition nameAt :: "js_string list \<Rightarrow> nat \<Rightarrow> js_string" where
  \<comment> \<open>\<^verbatim>\<open>names[k]?.replace(/</g, ' ').trim() || ''\<close>\<close>
  "nameAt names k = (if k < length names then trim (fillerToSpace (names ! k)) else [])"

definition parseTD3 :: "js_string list \<Rightarrow> MRZData" where
  "parseTD3 lines =
     (let line1 = lines ! 0;
          line2 = lines ! 1;
          names = splitFF [] (substring 5 44 line1);
          documentNumberChecksum = substring 9 10 line2;
          dobChecksum = substring 19 20 line2;
          expiryChecksum = substring 27 28 line2
      in \<lparr> documentType = stripTrailingFiller (substring 0 2 line1),
           issuingCountry = stripTrailingFiller (substring 2 5 line1),
           documentNumber = stripTrailingFiller (substring 0 9 line2),
           dateOfBirth = parseDate (substring 13 19 line2),
           expiryDate = parseDate (substring 21 27 line2),
           nationality = stripTrailingFiller (substring 10 13 line2),
           surname = nameAt names 0,
           givenNames = nameAt names 1,
           sex = substring 20 21 line2,
           checksumValid =
             (validateChecksum (substring 0 9 line2) documentNumberChecksum \<and>
              validateChecksum (substring 13 19 line2) dobChecksum \<and>
              validateChecksum (substring 21 27 line2) expiryChecksum) \<rparr>)"

definition parseTD1 :: "js_string list \<Rightarrow> MRZData" where
  "parseTD1 lines =
     (let line1 = lines ! 0;
          line2 = lines ! 1;
          line3 = lines ! 2;
          names = splitFF [] line3
      in \<lparr> documentType = stripTrailingFiller (substring 0 2 line1),
           issuingCountry = stripTrailingFiller (substring 2 5 line1),
           documentNumber = stripTrailingFiller (substring 5 14 line1),
           dateOfBirth = parseDate (substring 0 6 line2),
           expiryDate = parseDate (substring 8 14 line2),
           nationality = stripTrailingFiller (substring 15 18 line2),
           surname = nameAt names 0,
           givenNames = nameAt names 1,
           sex = substring 7 8 line2,
           checksumValid = True \<rparr>)"

definition parseMRZ :: "js_string list \<Rightarrow> MRZData option" where
  \<comment> \<open>\<open>None\<close> is \<^verbatim>\<open>null\<close>. The lists indexed by \<open>parseTD3\<close> and \<open>parseTD1\<close> have two and
      three entries.\<close>
  "parseMRZ mrzLines =
     (if length mrzLines < 2 then None
      else
        let lines = map (filter isMrzChar) mrzLines
        in if length lines = 2 \<and> length (lines ! 0) = 44 \<and> length (lines ! 1) = 44
           then Some (parseTD3 lines)
           else if length lines = 3 \<and> length (lines ! 0) = 30
           then Some (parseTD1 lines)
           else None)"

definition extractLoop :: "js_string list \<Rightarrow> js_string list \<Rightarrow> js_string list" where
  \<comment> \<open>the \<^verbatim>\<open>for ... of\<close> loop of \<^verbatim>\<open>extractMRZFromText\<close>, pushing onto \<^verbatim>\<open>mrzLines\<close>\<close>
  "extractLoop lines mrzLines =
     foldl (\<lambda>acc line.
              let cleanLine = filter (\<lambda>c. \<not> isWhiteSpace c) line
              in if list_all isMrzChar cleanLine \<and> 28 \<le> length cleanLine \<and> length cleanLine \<le> 44
                 then acc @ [cleanLine] else acc)
           mrzLines lines"

definition extractMRZFromText :: "js_string \<Rightarrow> js_string list" where
  "extractMRZFromText text = extractLoop (map trim (splitOn 10 [] text)) []"

section \<open>JavaScript numbers in the validator\<close>

text \<open>
  A JavaScript number is an IEEE 754 double. A finite double is modelled by the rational it
  denotes (the two zeros are one value), and an operation on finite doubles by the exact
  operation followed by \<open>fl\<close>, the rounding to the nearest double, ties to the even
  significand. \<open>fl\<close> has the 53-bit significand of a double and an unbounded exponent:
  overflow and subnormal numbers are out of its reach, and out of the reach of the numbers
  computed below, which are quotients of array and string lengths.
\<close>

datatype jsnum = NaN | NegInf | Num rat | PosInf

fun jsLess :: "jsnum \<Rightarrow> jsnum \<Rightarrow> bool" where
  \<comment> \<open>\<^verbatim>\<open>a < b\<close>; \<^verbatim>\<open>a > b\<close> is \<open>jsLess b a\<close>\<close>
  "jsLess NaN b = False"
| "jsLess a NaN = False"
| "jsLess NegInf NegInf = False"
| "jsLess NegInf b = True"
| "jsLess a NegInf = False"
| "jsLess PosInf b = False"
| "jsLess a PosInf = True"
| "jsLess (Num a) (Num b) = (a < b)"

definition truthyNum :: "jsnum \<Rightarrow> bool" where
  \<comment> \<open>the truth value of a number: \<^verbatim>\<open>NaN\<close> and zero are false\<close>
  "truthyNum v = (v \<noteq> NaN \<and> v \<noteq> Num 0)"

definition binade :: "rat \<Rightarrow> int" where
  \<comment> \<open>the exponent \<open>e\<close> of a positive rational: \<open>2 powi e \<le> x < 2 powi (e + 1)\<close>\<close>
  "binade x = (let (n, d) = quotient_of x; e = bitlen n - bitlen d
               in if 2 powi e \<le> x then e else e - 1)"

definition roundHalfEven :: "rat \<Rightarrow> int" where
  "roundHalfEven m =
     (let f = \<lfloor>m\<rfloor>; r = m - of_int f
      in if r < 1 / 2 then f else if 1 / 2 < r then f + 1 else if even f then f else f + 1)"

definition fl :: "rat \<Rightarrow> rat" where
  "fl x = (if x = 0 then 0
           else let e = binade \<bar>x\<bar> - 52
                in sgn x * of_int (roundHalfEven (\<bar>x\<bar> / 2 powi e)) * 2 powi e)"


section \<open>The data of the validator\<close>

datatype status = Pass | Fail | Warning

record ValidationCheck =
  field :: js_string
  status :: status
  message :: js_string

record ExtractedField =
  field_value :: js_string
  field_confidence :: jsnum

record ExtractedFields =
  ef_documentNumber :: "ExtractedField option"
  ef_fullName :: "ExtractedField option"
  ef_dateOfBirth :: "ExtractedField option"
  ef_dateOfIssue :: "ExtractedField option"
  ef_expiryDate :: "ExtractedField option"
  ef_nationality :: "ExtractedField option"
  ef_issuingCountry :: "ExtractedField option"
  ef_sex :: "ExtractedField option"
  ef_placeOfBirth :: "ExtractedField option"

record ApplicantForm =
  form_name :: js_string
  form_dateOfBirth :: js_string
  form_passportNumber :: js_string
  form_nationality :: js_string
  form_intendedVisaType :: js_string

typedecl json

record EligibilityPolicy =
  minAge :: "jsnum option"
  maxAge :: "jsnum option"
  allowedNationalities :: "js_string list option"
  blockedNationalities :: "js_string list option"
  minPassportValidity :: "jsnum option"
  visaTypeRequirements :: "(js_string \<rightharpoonup> json) option"


definition truthyValue :: "ExtractedField option \<Rightarrow> js_string option" where
  \<comment> \<open>\<^verbatim>\<open>extractedData.f?.value\<close> when it is truthy: the field is there and its value is not
      the empty string\<close>
  "truthyValue f =
     (case f of None \<Rightarrow> None
      | Some x \<Rightarrow> if field_value x = [] then None else Some (field_value x))"

section \<open>What the validator calls\<close>

text \<open>
  A \<^verbatim>\<open>Date\<close> is its time value, the milliseconds since the epoch, or \<open>None\<close> for an
  \<^verbatim>\<open>Invalid Date\<close>. The calendar functions of date-fns, which may throw, \<^verbatim>\<open>toUpperCase\<close>
  and the conversion of a number to a string are parameters of the model. \<^verbatim>\<open>new Date()\<close>
  reads a clock: the clock of an invocation is the sequence of its readings, and the state
  of the invocation is the number of readings taken so far.
\<close>

type_synonym jsdate = "int option"

datatype exn = TypeError | RangeError

record Host =
  parseISO :: "js_string \<Rightarrow> exn + jsdate"
  differenceInYears :: "jsdate \<Rightarrow> jsdate \<Rightarrow> exn + jsnum"
  differenceInMonths :: "jsdate \<Rightarrow> jsdate \<Rightarrow> exn + jsnum"
  toUpperCase :: "js_string \<Rightarrow> js_string"
  numToString :: "jsnum \<Rightarrow> js_string"

type_synonym clock = "nat \<Rightarrow> int"

definition new_Date :: "clock \<Rightarrow> nat \<Rightarrow> jsdate \<times> nat" where
  "new_Date clk n = (Some (clk n), Suc n)"

definition isBefore :: "jsdate \<Rightarrow> jsdate \<Rightarrow> bool" where
  \<comment> \<open>\<^verbatim>\<open>isBefore(date, dateToCompare)\<close> of date-fns compares the time values with \<^verbatim>\<open><\<close>,
      which is false when one of them is \<^verbatim>\<open>NaN\<close>\<close>
  "isBefore date dateToCompare =
     (case (date, dateToCompare) of (Some a, Some b) \<Rightarrow> a < b | _ \<Rightarrow> False)"

definition toFixed0 :: "Host \<Rightarrow> jsnum \<Rightarrow> js_string" where
  \<comment> \<open>\<^verbatim>\<open>x.toFixed(0)\<close>\<close>
  "toFixed0 host x =
     (case x of
        Num r \<Rightarrow>
          if 10 ^ 21 \<le> \<bar>r\<bar> then numToString host x
          else if r < 0 then 45 # natToString (nat \<lfloor>- r + 1 / 2\<rfloor>)
          else natToString (nat \<lfloor>r + 1 / 2\<rfloor>)
      | _ \<Rightarrow> numToString host x)"

section \<open>The document validator\<close>

definition validateDateFormat :: "js_string \<Rightarrow> js_string \<Rightarrow> ValidationCheck" where
  "validateDateFormat date fieldName =
     (let isValid = (length date = 10 \<and> list_all isDigit (take 4 date) \<and> date ! 4 = 45
                     \<and> list_all isDigit (take 2 (drop 5 date)) \<and> date ! 7 = 45
                     \<and> list_all isDigit (drop 8 date))
      in \<lparr> field = fieldName,
           status = (if isValid then Pass else Fail),
           message = (if isValid then js ''Date format is valid (ISO 8601)''
                      else js ''Date format is invalid'') \<rparr>)"

definition validateExpiryDate :: "Host \<Rightarrow> clock \<Rightarrow> nat \<Rightarrow> js_string \<Rightarrow> ValidationCheck \<times> nat" where
  "validateExpiryDate host clk n expiryDateStr =
     (case parseISO host expiryDateStr of
        Inl e \<Rightarrow>
          (\<lparr> field = js ''Expiry Date'', status = Fail,
             message = js ''Unable to parse expiry date'' \<rparr>, n)
      | Inr expiry \<Rightarrow>
          let (now, n') = new_Date clk n;
              isExpired = isBefore expiry now
          in (\<lparr> field = js ''Expiry Date'',
                status = (if isExpired then Fail else Pass),
                message = (if isExpired then js ''Document has expired''
                           else js ''Document is valid'') \<rparr>, n'))"

definition calculateAge :: "Host \<Rightarrow> clock \<Rightarrow> nat \<Rightarrow> js_string \<Rightarrow> jsnum \<times> nat" where
  "calculateAge host clk n dateOfBirthStr =
     (let (now, n') = new_Date clk n
      in case parseISO host dateOfBirthStr of
           Inl e \<Rightarrow> (Num 0, n')
         | Inr birth \<Rightarrow>
             (case differenceInYears host now birth of
                Inl e \<Rightarrow> (Num 0, n')
              | Inr age \<Rightarrow> (age, n')))"

definition normalizeString :: "Host \<Rightarrow> js_string \<Rightarrow> js_string" where
  "normalizeString host str = filter (\<lambda>c. isUpper c \<or> isDigit c) (toUpperCase host str)"

type_synonym matrix = "nat \<times> nat \<Rightarrow> nat option"

text \<open>
  The matrix of \<^verbatim>\<open>levenshteinDistance\<close> is the map from the index pairs that were
  assigned to their entries: \<^verbatim>\<open>matrix[i][j]\<close> is the entry at \<open>(i, j)\<close>. An entry that was
  never assigned is \<open>None\<close>, and so is the result of arithmetic on one.
\<close>

definition minPlus1 :: "nat option \<Rightarrow> nat option \<Rightarrow> nat option \<Rightarrow> nat option" where
  \<comment> \<open>\<^verbatim>\<open>Math.min(a + 1, b + 1, c + 1)\<close>\<close>
  "minPlus1 a b c =
     (case (a, b, c) of
        (Some x, Some y, Some z) \<Rightarrow> Some (min (x + 1) (min (y + 1) (z + 1)))
      | _ \<Rightarrow> None)"

definition fillCell :: "'a list \<Rightarrow> 'a list \<Rightarrow> nat \<Rightarrow> matrix \<Rightarrow> nat \<Rightarrow> matrix" where
  \<comment> \<open>the body of the inner loop\<close>
  "fillCell str1 str2 i m j =
     (if str2 ! (i - 1) = str1 ! (j - 1)
      then m((i, j) := m (i - 1, j - 1))
      else m((i, j) := minPlus1 (m (i - 1, j - 1)) (m (i, j - 1)) (m (i - 1, j))))"

definition fillRow :: "'a list \<Rightarrow> 'a list \<Rightarrow> matrix \<Rightarrow> nat \<Rightarrow> matrix" where
  \<comment> \<open>the inner loop, \<open>j\<close> from 1 to the length of \<open>str1\<close>\<close>
  "fillRow str1 str2 m i = foldl (fillCell str1 str2 i) m [1..<Suc (length str1)]"

definition initMatrix :: "'a list \<Rightarrow> 'a list \<Rightarrow> matrix" where
  \<comment> \<open>the two loops that set the first entry of every row, then the first row\<close>
  "initMatrix str1 str2 =
     foldl (\<lambda>m j. m((0, j) \<mapsto> j))
       (foldl (\<lambda>m i. m((i, 0) \<mapsto> i)) (\<lambda>k. None) [0..<Suc (length str2)])
       [0..<Suc (length str1)]"

definition levenshteinDistance :: "'a list \<Rightarrow> 'a list \<Rightarrow> nat option" where
  "levenshteinDistance str1 str2 =
     (let matrix = foldl (fillRow str1 str2) (initMatrix str1 str2) [1..<Suc (length str2)]
      in matrix (length str2, length str1))"

definition calculateSimilarity :: "js_string \<Rightarrow> js_string \<Rightarrow> jsnum" where
  "calculateSimilarity str1 str2 =
     (let longer = (if length str1 > length str2 then str1 else str2);
          shorter = (if length str1 > length str2 then str2 else str1)
      in if length longer = 0 then Num 1
         else case levenshteinDistance longer shorter of
                None \<Rightarrow> NaN
              | Some editDistance \<Rightarrow>
                  Num (fl ((of_nat (length longer) - of_nat editDistance)
                           / of_nat (length longer))))"

definition times100 :: "jsnum \<Rightarrow> jsnum" where
  \<comment> \<open>\<^verbatim>\<open>x * 100\<close>\<close>
  "times100 x =
     (case x of Num r \<Rightarrow> Num (fl (r * 100)) | NaN \<Rightarrow> NaN | PosInf \<Rightarrow> PosInf | NegInf \<Rightarrow> NegInf)"

definition nameStatus :: "jsnum \<Rightarrow> status" where
  \<comment> \<open>\<^verbatim>\<open>similarity > 0.8 ? 'pass' : similarity > 0.6 ? 'warning' : 'fail'\<close>; a decimal literal
      denotes the double nearest to it\<close>
  "nameStatus similarity =
     (if jsLess (Num (fl (8 / 10))) similarity then Pass
      else if jsLess (Num (fl (6 / 10))) similarity then Warning
      else Fail)"

type_synonym vstate = "ValidationCheck list \<times> nat"

definition dateChecks :: "Host \<Rightarrow> clock \<Rightarrow> ExtractedFields \<Rightarrow> vstate \<Rightarrow> vstate" where
  \<comment> \<open>\<^verbatim>\<open>// Date format validation\<close>\<close>
  "dateChecks host clk extractedData s =
     (let (checks, n) = s;
          checks = (case truthyValue (ef_dateOfBirth extractedData) of
                      None \<Rightarrow> checks
                    | Some v \<Rightarrow> checks @ [validateDateFormat v (js ''Date of Birth'')])
      in case truthyValue (ef_expiryDate extractedData) of
           None \<Rightarrow> (checks, n)
         | Some v \<Rightarrow>
             let checks = checks @ [validateDateFormat v (js ''Expiry Date'')];
                 (c, n') = validateExpiryDate host clk n v
             in (checks @ [c], n'))"

definition mrzChecks ::
  "Host \<Rightarrow> ExtractedFields \<Rightarrow> MRZData option \<Rightarrow> ValidationCheck list \<Rightarrow> ValidationCheck list" where
  \<comment> \<open>\<^verbatim>\<open>// MRZ validation\<close>\<close>
  "mrzChecks host extractedData mrzData checks =
     (case mrzData of
        None \<Rightarrow> checks
      | Some mrz \<Rightarrow>
          let checks = checks @
                [\<lparr> field = js ''MRZ Checksum'',
                   status = (if checksumValid mrz then Pass else Fail),
                   message = (if checksumValid mrz then js ''MRZ checksums are valid''
                              else js ''MRZ checksum validation failed'') \<rparr>];
              checks =
                (case truthyValue (ef_documentNumber extractedData) of
                   None \<Rightarrow> checks
                 | Some v \<Rightarrow>
                     if documentNumber mrz = [] then checks
                     else
                       let match = (normalizeString host v
                                    = normalizeString host (documentNumber mrz))
                       in checks @
                            [\<lparr> field = js ''Document Number'',
                               status = (if match then Pass else Warning),
                               message = (if match then js ''Document number matches MRZ''
                                          else js ''Document number differs from MRZ'') \<rparr>])
          in case truthyValue (ef_fullName extractedData) of
               None \<Rightarrow> checks
             | Some v \<Rightarrow>
                 let extractedName = normalizeString host v;
                     mrzName = normalizeString host (givenNames mrz @ js '' '' @ surname mrz);
                     similarity = calculateSimilarity extractedName mrzName
                 in checks @
                      [\<lparr> field = js ''Name'',
                         status = nameStatus similarity,
                         message = js ''Name similarity: ''
                                   @ toFixed0 host (times100 similarity) @ js ''%'' \<rparr>])"

definition formChecks ::
  "Host \<Rightarrow> ExtractedFields \<Rightarrow> ApplicantForm option \<Rightarrow> ValidationCheck list
     \<Rightarrow> ValidationCheck list" where
  \<comment> \<open>\<^verbatim>\<open>// Applicant form validation\<close>\<close>
  "formChecks host extractedData applicantForm checks =
     (case applicantForm of
        None \<Rightarrow> checks
      | Some form \<Rightarrow>
          let checks =
                (case truthyValue (ef_documentNumber extractedData) of
                   None \<Rightarrow> checks
                 | Some v \<Rightarrow>
                     let docMatch = (normalizeString host (form_passportNumber form)
                                     = normalizeString host v)
                     in checks @
                          [\<lparr> field = js ''Passport Number Match'',
                             status = (if docMatch then Pass else Fail),
                             message = (if docMatch then js ''Passport number matches application''
                                        else js ''Passport number does not match application'') \<rparr>])
          in case truthyValue (ef_dateOfBirth extractedData) of
               None \<Rightarrow> checks
             | Some v \<Rightarrow>
                 let dobMatch = (form_dateOfBirth form = v)
                 in checks @
                      [\<lparr> field = js ''Date of Birth Match'',
                         status = (if dobMatch then Pass else Fail),
                         message = (if dobMatch then js ''Date of birth matches application''
                                    else js ''Date of birth does not match application'') \<rparr>])"

definition ageChecks ::
  "Host \<Rightarrow> clock \<Rightarrow> ExtractedFields \<Rightarrow> EligibilityPolicy option \<Rightarrow> vstate \<Rightarrow> vstate" where
  \<comment> \<open>\<^verbatim>\<open>// Policy validation\<close>, the rules on the age\<close>
  "ageChecks host clk extractedData policy s =
     (let (checks, n) = s
      in case (policy, truthyValue (ef_dateOfBirth extractedData)) of
           (Some pol, Some v) \<Rightarrow>
             let (age, n') = calculateAge host clk n v;
                 checks =
                   (case minAge pol of
                      None \<Rightarrow> checks
                    | Some lo \<Rightarrow>
                        if truthyNum lo \<and> jsLess age lo
                        then checks @
                               [\<lparr> field = js ''Age Requirement'', status = Fail,
                                  message = js ''Applicant is '' @ numToString host age
                                            @ js '' years old, minimum age is ''
                                            @ numToString host lo \<rparr>]
                        else checks);
                 checks =
                   (case maxAge pol of
                      None \<Rightarrow> checks
                    | Some hi \<Rightarrow>
                        if truthyNum hi \<and> jsLess hi age
                        then checks @
                               [\<lparr> field = js ''Age Requirement'', status = Fail,
                                  message = js ''Applicant is '' @ numToString host age
                                            @ js '' years old, maximum age is ''
                                            @ numToString host hi \<rparr>]
                        else checks)
             in (checks, n')
         | _ \<Rightarrow> (checks, n))"

definition nationalityChecks ::
  "ExtractedFields \<Rightarrow> EligibilityPolicy option \<Rightarrow> ValidationCheck list \<Rightarrow> ValidationCheck list" where
  \<comment> \<open>the rules on the nationality\<close>
  "nationalityChecks extractedData policy checks =
     (case (policy, truthyValue (ef_nationality extractedData)) of
        (Some pol, Some nat') \<Rightarrow>
          let checks =
                (case allowedNationalities pol of
                   None \<Rightarrow> checks
                 | Some allowed \<Rightarrow>
                     if List.member allowed nat' then checks
                     else checks @
                            [\<lparr> field = js ''Nationality'', status = Fail,
                               message = js ''Nationality '' @ nat'
                                         @ js '' is not in allowed list'' \<rparr>])
          in (case blockedNationalities pol of
                None \<Rightarrow> checks
              | Some blocked \<Rightarrow>
                  if List.member blocked nat'
                  then checks @
                         [\<lparr> field = js ''Nationality'', status = Fail,
                            message = js ''Nationality '' @ nat' @ js '' is blocked'' \<rparr>]
                  else checks)
      | _ \<Rightarrow> checks)"

definition validityChecks ::
  "Host \<Rightarrow> clock \<Rightarrow> ExtractedFields \<Rightarrow> EligibilityPolicy option \<Rightarrow> vstate \<Rightarrow> exn + vstate" where
  \<comment> \<open>the rule on the remaining validity; nothing catches what it throws\<close>
  "validityChecks host clk extractedData policy s =
     (let (checks, n) = s
      in case (policy, truthyValue (ef_expiryDate extractedData)) of
           (Some pol, Some v) \<Rightarrow>
             (case minPassportValidity pol of
                None \<Rightarrow> Inr (checks, n)
              | Some months \<Rightarrow>
                  if \<not> truthyNum months then Inr (checks, n)
                  else
                    (case parseISO host v of
                       Inl e \<Rightarrow> Inl e
                     | Inr expiry \<Rightarrow>
                         let (now, n') = new_Date clk n
                         in case differenceInMonths host expiry now of
                              Inl e \<Rightarrow> Inl e
                            | Inr monthsValid \<Rightarrow>
                                if jsLess monthsValid months
                                then Inr (checks @
                                       [\<lparr> field = js ''Passport Validity'', status = Fail,
                                          message = js ''Passport valid for ''
                                                    @ numToString host monthsValid
                                                    @ js '' months, requires ''
                                                    @ numToString host months
                                                    @ js '' months'' \<rparr>], n')
                                else Inr (checks, n')))
         | _ \<Rightarrow> Inr (checks, n))"

definition validateDocument ::
  "Host \<Rightarrow> clock \<Rightarrow> ExtractedFields \<Rightarrow> MRZData option \<Rightarrow> ApplicantForm option
     \<Rightarrow> EligibilityPolicy option \<Rightarrow> exn + ValidationCheck list" where
  \<comment> \<open>\<open>Inl\<close> is the exception the invocation ends with\<close>
  "validateDocument host clk extractedData mrzData applicantForm policy =
     (let (checks, n) = dateChecks host clk extractedData ([], 0);
          checks = mrzChecks host extractedData mrzData checks;
          checks = formChecks host extractedData applicantForm checks;
          (checks, n) = ageChecks host clk extractedData policy (checks, n);
          checks = nationalityChecks extractedData policy checks
      in case validityChecks host clk extractedData policy (checks, n) of
           Inl e \<Rightarrow> Inl e
         | Inr (checks, n) \<Rightarrow> Inr checks)"


section \<open>What the specification says\<close>

text \<open>
  The value of a character of the check digit algorithm: a digit is its value, a letter its
  position in the alphabet plus 10, the filler 0.
\<close>

definition mrzValue :: "code_unit \<Rightarrow> int" where
  "mrzValue c = (if isDigit c then int c - 48 else if isUpper c then (int c - 65) + 10 else 0)"

definition weightedSum :: "js_string \<Rightarrow> int" where
  \<comment> \<open>the sum over the positions \<open>i\<close> of the value times \<open>[7, 3, 1] ! (i mod 3)\<close>\<close>
  "weightedSum data = (\<Sum>i<length data. mrzValue (data ! i) * [7, 3, 1] ! (i mod 3))"

definition isQualifying :: "js_string \<Rightarrow> bool" where
  \<comment> \<open>a line qualifies if, after removing white space, it is made of \<^verbatim>\<open>[A-Z0-9<]\<close> only and its
      length lies in \<open>[28, 44]\<close>\<close>
  "isQualifying line =
     (let stripped = filter (\<lambda>c. \<not> isWhiteSpace c) line
      in list_all isMrzChar stripped \<and> 28 \<le> length stripped \<and> length stripped \<le> 44)"



section \<open>Auxiliary notions of the proofs\<close>


text \<open>
  The recurrence of the matrix of \<open>levenshteinDistance\<close>, on the reversed prefixes of the
  two strings.
\<close>

fun editRec :: "'a list \<Rightarrow> 'a list \<Rightarrow> nat" where
  "editRec [] ys = length ys"
| "editRec xs [] = length xs"
| "editRec (x # xs) (y # ys) =
     (if x = y then editRec xs ys
      else min (editRec xs ys + 1) (min (editRec (x # xs) ys + 1) (editRec xs (y # ys) + 1)))"

definition prefixDist :: "'a list \<Rightarrow> 'a list \<Rightarrow> nat \<Rightarrow> nat \<Rightarrow> nat" where
  "prefixDist str1 str2 i j = editRec (rev (take i str2)) (rev (take j str1))"

definition filled :: "'a list \<Rightarrow> 'a list \<Rightarrow> matrix \<Rightarrow> nat \<Rightarrow> nat \<Rightarrow> bool" where
  \<comment> \<open>the rows above \<open>i\<close>, the first column, and row \<open>i\<close> up to column \<open>j\<close> hold their distances\<close>
  "filled str1 str2 m i j =
     (\<forall>a b. a \<le> length str2 \<longrightarrow> b \<le> length str1 \<longrightarrow> (a < i \<or> b = 0 \<or> (a = i \<and> b \<le> j))
        \<longrightarrow> m (a, b) = Some (prefixDist str1 str2 a b))"


text \<open>
  A host for the examples. As \<^verbatim>\<open>parseISO\<close> of date-fns does, it returns an \<^verbatim>\<open>Invalid Date\<close>
  for a string it cannot parse and throws nothing; the one date it knows is 2030-01-01, at
  midnight UTC. The examples call none of its other functions.
\<close>

definition fixtureHost :: Host where
  "fixtureHost =
     \<lparr> parseISO = (\<lambda>s. if s = js ''2030-01-01'' then Inr (Some 1893456000000) else Inr None),
       differenceInYears = (\<lambda>a b. Inr NaN),
       differenceInMonths = (\<lambda>a b. Inr NaN),
       toUpperCase = (\<lambda>s. s),
       numToString = (\<lambda>n. js ''NaN'') \<rparr>"



definition noFields :: ExtractedFields where
  "noFields =
     \<lparr> ef_documentNumber = None, ef_fullName = None, ef_dateOfBirth = None,
       ef_dateOfIssue = None, ef_expiryDate = None, ef_nationality = None,
       ef_issuingCountry = None, ef_sex = None, ef_placeOfBirth = None \<rparr>"


section \<open>Evaluation\<close>

declare natToString.simps [simp del]
declare checksumLoop.simps [simp del]

lemmas str_defs = js_def isDigit_def isUpper_def filler_def isMrzChar_def isWhiteSpace_def trim_def
  substring_def stripTrailingFiller_def fillerToSpace_def

lemma natToString_digit: "d < 10 \<Longrightarrow> natToString d = [48 + d]"
  by (subst natToString.simps) simp

lemma natToString_snoc: "0 < n \<Longrightarrow> d < 10 \<Longrightarrow> natToString (10 * n + d) = natToString n @ [48 + d]"
  by (subst natToString.simps) simp

lemma natToString_20xx:
  assumes "a < 10" and "b < 10"
  shows "natToString (2000 + (10 * a + b)) = [50, 48, 48 + a, 48 + b]"
proof -
  have "2000 + (10 * a + b) = 10 * (10 * 20 + a) + b" by simp
  then have "natToString (2000 + (10 * a + b)) = natToString (10 * (10 * 20 + a) + b)"
    by (rule arg_cong)
  also have "\<dots> = natToString (10 * 20 + a) @ [48 + b]"
    using assms by (subst natToString_snoc) simp_all
  also have "natToString (10 * 20 + a) = natToString 20 @ [48 + a]"
    using assms by (subst natToString_snoc) simp_all
  also have "natToString 20 = [50, 48]"
    using natToString_snoc [of 2 0] natToString_digit [of 2] by simp
  finally show ?thesis by simp
qed

lemma natToString_19xx:
  assumes "a < 10" and "b < 10"
  shows "natToString (1900 + (10 * a + b)) = [49, 57, 48 + a, 48 + b]"
proof -
  have "1900 + (10 * a + b) = 10 * (10 * 19 + a) + b" by simp
  then have "natToString (1900 + (10 * a + b)) = natToString (10 * (10 * 19 + a) + b)"
    by (rule arg_cong)
  also have "\<dots> = natToString (10 * 19 + a) @ [48 + b]"
    using assms by (subst natToString_snoc) simp_all
  also have "natToString (10 * 19 + a) = natToString 19 @ [48 + a]"
    using assms by (subst natToString_snoc) simp_all
  also have "natToString 19 = [49, 57]"
    using natToString_snoc [of 1 9] natToString_digit [of 1] by simp
  finally show ?thesis by simp
qed

lemma numberToString_nat: "numberToString (Some (int n)) = natToString n"
  by (simp add: numberToString_def)

lemma isDigit_offset: "isDigit a \<Longrightarrow> \<exists>d. a = 48 + d \<and> d < 10"
  by (rule exI [of _ "a - 48"]) (auto simp: isDigit_def)

lemma parseInt_digit: "isDigit c \<Longrightarrow> parseInt [c] = Some (int c - 48)"
  by (auto simp: parseInt_def digitValue_def isDigit_def isWhiteSpace_def)

lemma parseInt_two_digits:
  "isDigit a \<Longrightarrow> isDigit b \<Longrightarrow> parseInt [a, b] = Some (int (10 * (a - 48) + (b - 48)))"
  by (auto simp: parseInt_def digitValue_def isDigit_def isWhiteSpace_def)

lemma list6: "length s = 6 \<Longrightarrow> \<exists>a b c d e f. s = [a, b, c, d, e, f]"
  by (auto simp: length_Suc_conv eval_nat_numeral)

section \<open>The check digit\<close>

lemma charValue_mrzValue: "charValue c = Some (mrzValue c)"
  by (simp add: charValue_def mrzValue_def parseInt_digit)

lemma weights_nth: "weights ! (i mod 3) = [7, 3, 1] ! (i mod 3)"
  by (simp add: weights_def)

lemma checksumLoop_sum:
  "i \<le> length data \<Longrightarrow>
   checksumLoop data i (Some s) =
     Some (s + (\<Sum>k = i..<length data. mrzValue (data ! k) * [7, 3, 1] ! (k mod 3)))"
proof (induction data i "Some s" arbitrary: s rule: checksumLoop.induct)
  case (1 data i)
  show ?case
  proof (cases "i < length data")
    case True
    then have "checksumLoop data i (Some s) =
        checksumLoop data (i + 1) (Some (s + mrzValue (data ! i) * [7, 3, 1] ! (i mod 3)))"
      by (subst checksumLoop.simps) (simp add: charValue_mrzValue weights_nth)
    also have "\<dots> = Some (s + mrzValue (data ! i) * [7, 3, 1] ! (i mod 3)
        + (\<Sum>k = i + 1..<length data. mrzValue (data ! k) * [7, 3, 1] ! (k mod 3)))"
      using True by (intro "1.hyps") (simp_all add: charValue_mrzValue weights_nth)
    also have "\<dots> = Some (s + (\<Sum>k = i..<length data. mrzValue (data ! k) * [7, 3, 1] ! (k mod 3)))"
      using True by (simp add: sum.atLeast_Suc_lessThan add.assoc)
    finally show ?thesis .
  next
    case False
    with "1.prems" show ?thesis by (subst checksumLoop.simps) simp
  qed
qed

lemma mrzValue_nonneg: "0 \<le> mrzValue c"
  by (simp add: mrzValue_def isDigit_def isUpper_def)

lemma weight_nonneg: "0 \<le> ([7, 3, 1] :: int list) ! (i mod 3)"
proof -
  have "i mod 3 = 0 \<or> i mod 3 = 1 \<or> i mod 3 = 2" by arith
  then show ?thesis by auto
qed

lemma weightedSum_nonneg: "0 \<le> weightedSum data"
  unfolding weightedSum_def by (intro sum_nonneg mult_nonneg_nonneg mrzValue_nonneg weight_nonneg)

lemma jsRem_nonneg: "0 \<le> a \<Longrightarrow> jsRem a 10 = a mod 10"
  by (cases "a = 0") (simp_all add: jsRem_def)

text \<open>
  C2. For every data string and every check digit string, in particular for a data string over
  digits, upper-case letters and the filler and a check digit of one character,
  \<open>validateChecksum\<close> holds exactly when the decimal string of the weighted sum modulo 10
  is the check digit, where the weights \<open>[7, 3, 1]\<close> are taken at the position modulo 3, a
  digit counts as itself, a letter as its position in the alphabet plus 10 and the filler as
  0.
\<close>

theorem validateChecksum_spec:
  "validateChecksum data checksum = (numberToString (Some (weightedSum data mod 10)) = checksum)"
proof -
  have "checksumLoop data 0 (Some 0) = Some (weightedSum data)"
    using checksumLoop_sum [of 0 data 0] by (simp add: weightedSum_def atLeast0LessThan)
  then show ?thesis
    by (simp add: validateChecksum_def jsRem_nonneg weightedSum_nonneg)
qed

section \<open>The date of the MRZ\<close>

text \<open>
  C6. A string of six digits \<open>YYMMDD\<close> decodes to the ISO date of the same month and day
  whose year is \<open>20YY\<close> when \<open>YY < 50\<close> and \<open>19YY\<close> otherwise.
\<close>

theorem parseDate_century:
  assumes "length s = 6" and "list_all isDigit s"
  shows "parseDate s =
     (if 10 * (s ! 0 - 48) + (s ! 1 - 48) < 50 then js ''20'' else js ''19'')
       @ take 2 s @ js ''-'' @ take 2 (drop 2 s) @ js ''-'' @ drop 4 s"
proof -
  from assms(1) obtain a b c d e f where s: "s = [a, b, c, d, e, f]"
    using list6 by blast
  from assms(2) s have dig: "isDigit a" "isDigit b" by simp_all
  from dig obtain A B where a: "a = 48 + A" "A < 10" and b: "b = 48 + B" "B < 10"
    using isDigit_offset by blast
  have year: "parseInt [a, b] = Some (int (10 * A + B))"
    using dig parseInt_two_digits [of a b] by (simp add: a b)
  have idx: "10 * (s ! 0 - 48) + (s ! 1 - 48) = 10 * A + B"
    by (simp add: s a b)
  show ?thesis
  proof (cases "10 * A + B < 50")
    case True
    have "numberToString (Some (2000 + int (10 * A + B))) = natToString (2000 + (10 * A + B))"
      using numberToString_nat [of "2000 + (10 * A + B)"] by simp
    also have "\<dots> = js ''20'' @ [a, b]"
      using natToString_20xx [OF a(2) b(2)] by (simp add: js_def a b)
    finally have "numberToString (Some (2000 + int (10 * A + B))) = js ''20'' @ [a, b]" .
    with True show ?thesis
      unfolding idx by (simp add: parseDate_def year s substring_def Let_def)
  next
    case False
    have "numberToString (Some (1900 + int (10 * A + B))) = natToString (1900 + (10 * A + B))"
      using numberToString_nat [of "1900 + (10 * A + B)"] by simp
    also have "\<dots> = js ''19'' @ [a, b]"
      using natToString_19xx [OF a(2) b(2)] by (simp add: js_def a b)
    finally have "numberToString (Some (1900 + int (10 * A + B))) = js ''19'' @ [a, b]" .
    with False show ?thesis
      unfolding idx by (simp add: parseDate_def year s substring_def Let_def)
  qed
qed

text \<open>The boundary: the year 49 is 2049 and the year 50 is 1950.\<close>

theorem parseDate_century_witness:
  "parseDate (js ''491231'') = js ''2049-12-31'' \<and> parseDate (js ''500101'') = js ''1950-01-01''"
  using parseDate_century [of "js ''491231''"] parseDate_century [of "js ''500101''"]
  by (simp add: js_def isDigit_def)

section \<open>The MRZ decoder\<close>

lemmas mrz_defs = parseMRZ_def parseTD3_def parseTD1_def nameAt_def parseDate_def
  validateChecksum_def charValue_def parseInt_def digitValue_def numberToString_def jsRem_def
  weights_def

text \<open>
  C5. The two lines of the specimen passport of ICAO 9303 decode to the record of the
  claim, with valid check digits.
\<close>

theorem parseMRZ_icao_specimen:
  "parseMRZ [js ''P<UTOERIKSSON<<ANNA<MARIA<<<<<<<<<<<<<<<<<<<'',
             js ''L898902C36UTO7408122F1204159ZE184226B<<<<<10'']
   = Some \<lparr> documentType = js ''P'', issuingCountry = js ''UTO'',
            documentNumber = js ''L898902C3'', dateOfBirth = js ''1974-08-12'',
            expiryDate = js ''2012-04-15'', nationality = js ''UTO'',
            surname = js ''ERIKSSON'', givenNames = js ''ANNA MARIA'', sex = js ''F'',
            checksumValid = True \<rparr>"
  by (simp add: mrz_defs str_defs natToString.simps checksumLoop.simps)

text \<open>
  C3. Three lines of 30, 28 and 36 characters of \<^verbatim>\<open>[A-Z0-9<]\<close> are not three lines of 30
  characters, and yet they are decoded as a TD1 record: only the length of the first line
  is looked at.
\<close>

theorem parseMRZ_td1_short_lines:
  "map length [js ''I<UTOD231458907<<<<<<<<<<<<<<<'',
               js ''7408122F1204159UTO<<<<<<<<<<'',
               js ''ERIKSSON<<ANNA<MARIA<<<<<<<<<<<<<<<<''] = [30, 28, 36]
   \<and> parseMRZ [js ''I<UTOD231458907<<<<<<<<<<<<<<<'',
               js ''7408122F1204159UTO<<<<<<<<<<'',
               js ''ERIKSSON<<ANNA<MARIA<<<<<<<<<<<<<<<<'']
     = Some \<lparr> documentType = js ''I'', issuingCountry = js ''UTO'',
              documentNumber = js ''D23145890'', dateOfBirth = js ''1974-08-12'',
              expiryDate = js ''2012-04-15'', nationality = js ''UTO'',
              surname = js ''ERIKSSON'', givenNames = js ''ANNA MARIA'', sex = js ''F'',
              checksumValid = True \<rparr>"
  by (simp add: mrz_defs str_defs natToString.simps)

text \<open>What the decoder asks of its lines, once stripped.\<close>

lemma parseMRZ_shape:
  "(parseMRZ mrzLines \<noteq> None) =
     (let lines = map (filter isMrzChar) mrzLines
      in (length lines = 2 \<and> length (lines ! 0) = 44 \<and> length (lines ! 1) = 44)
         \<or> (length lines = 3 \<and> length (lines ! 0) = 30))"
  by (auto simp: parseMRZ_def Let_def)

section \<open>The MRZ line selector\<close>

lemma filter_dropWhile_neg: "filter (\<lambda>c. \<not> P c) (dropWhile P xs) = filter (\<lambda>c. \<not> P c) xs"
  by (induction xs) simp_all

lemma filter_trim: "filter (\<lambda>c. \<not> isWhiteSpace c) (trim s) = filter (\<lambda>c. \<not> isWhiteSpace c) s"
proof -
  have "filter (\<lambda>c. \<not> isWhiteSpace c) (trim s)
      = rev (filter (\<lambda>c. \<not> isWhiteSpace c) (dropWhile isWhiteSpace (rev (dropWhile isWhiteSpace s))))"
    by (simp add: trim_def rev_filter)
  also have "\<dots> = rev (filter (\<lambda>c. \<not> isWhiteSpace c) (rev (dropWhile isWhiteSpace s)))"
    by (simp only: filter_dropWhile_neg)
  also have "\<dots> = filter (\<lambda>c. \<not> isWhiteSpace c) (dropWhile isWhiteSpace s)"
    by (simp add: rev_filter)
  finally show ?thesis by (simp only: filter_dropWhile_neg)
qed

lemma extractLoop_filter:
  "extractLoop lines acc
     = acc @ map (filter (\<lambda>c. \<not> isWhiteSpace c)) (filter isQualifying lines)"
  unfolding extractLoop_def
  by (induction lines arbitrary: acc) (simp_all add: isQualifying_def Let_def)

lemma isQualifying_trim: "isQualifying (trim l) = isQualifying l"
  by (simp add: isQualifying_def filter_trim)

text \<open>
  C8. The selector returns, in the order of the lines of the text, the lines that qualify,
  each with its white space removed; the result is empty exactly when no line qualifies.
\<close>

theorem extractMRZFromText_spec:
  "extractMRZFromText text
     = map (filter (\<lambda>c. \<not> isWhiteSpace c)) (filter isQualifying (splitOn 10 [] text))
   \<and> (extractMRZFromText text = []) = (filter isQualifying (splitOn 10 [] text) = [])"
proof -
  have "extractMRZFromText text
     = map (filter (\<lambda>c. \<not> isWhiteSpace c)) (filter isQualifying (splitOn 10 [] text))"
    by (simp add: extractMRZFromText_def extractLoop_filter filter_map o_def isQualifying_trim
        filter_trim)
  then show ?thesis by simp
qed

section \<open>Rounding to a double\<close>




lemma roundHalfEven_nonneg: "0 \<le> m \<Longrightarrow> 0 \<le> roundHalfEven m"
  by (auto simp: roundHalfEven_def Let_def)

lemma fl_nonneg: "0 \<le> x \<Longrightarrow> 0 \<le> fl x"
  by (auto simp: fl_def Let_def roundHalfEven_nonneg)









section \<open>The edit distance\<close>

lemma editRec_Nil2: "editRec xs [] = length xs"
  by (cases xs) simp_all

lemma editRec_sym: "editRec xs ys = editRec ys xs"
  by (induction xs ys rule: editRec.induct)
     (simp_all add: editRec_Nil2 min.commute min.left_commute)


lemma rev_take_Suc: "i < length s \<Longrightarrow> rev (take (Suc i) s) = s ! i # rev (take i s)"
  by (simp add: take_Suc_conv_app_nth)

lemma prefixDist_0_left: "j \<le> length str1 \<Longrightarrow> prefixDist str1 str2 0 j = j"
  by (simp add: prefixDist_def)

lemma prefixDist_0_right: "i \<le> length str2 \<Longrightarrow> prefixDist str1 str2 i 0 = i"
  by (simp add: prefixDist_def editRec_Nil2)

lemma prefixDist_Suc:
  assumes "i < length str2" and "j < length str1"
  shows "prefixDist str1 str2 (Suc i) (Suc j) =
     (if str2 ! i = str1 ! j then prefixDist str1 str2 i j
      else min (prefixDist str1 str2 i j + 1)
             (min (prefixDist str1 str2 (Suc i) j + 1) (prefixDist str1 str2 i (Suc j) + 1)))"
  using assms by (simp add: prefixDist_def rev_take_Suc)

lemma firstRow_other:
  "0 < a \<Longrightarrow> foldl (\<lambda>m j. m((0, j) \<mapsto> j)) (m0 :: matrix) ks (a, b) = m0 (a, b)"
  by (induction ks arbitrary: m0) auto

lemma firstRow_hit:
  "b \<in> set ks \<Longrightarrow> foldl (\<lambda>m j. m((0, j) \<mapsto> j)) (m0 :: matrix) ks (0, b) = Some b"
  by (induction ks arbitrary: m0 rule: rev_induct) auto

lemma firstColumn_hit:
  "a \<in> set ks \<Longrightarrow> foldl (\<lambda>m i. m((i, 0) \<mapsto> i)) (m0 :: matrix) ks (a, 0) = Some a"
  by (induction ks arbitrary: m0 rule: rev_induct) auto

lemma initMatrix_filled: "filled str1 str2 (initMatrix str1 str2) 1 0"
proof -
  have row0: "initMatrix str1 str2 (0, b) = Some b" if "b \<le> length str1" for b
  proof -
    have "b \<in> set [0..<Suc (length str1)]" using that by auto
    then show ?thesis unfolding initMatrix_def by (rule firstRow_hit)
  qed
  have col0: "initMatrix str1 str2 (a, 0) = Some a" if "a \<le> length str2" "0 < a" for a
  proof -
    have "a \<in> set [0..<Suc (length str2)]" using that by auto
    then have "foldl (\<lambda>m i. m((i, 0) \<mapsto> i)) (\<lambda>k. None :: nat option)
        [0..<Suc (length str2)] (a, 0 :: nat) = Some a"
      by (rule firstColumn_hit)
    then show ?thesis
      unfolding initMatrix_def using that(2) by (simp only: firstRow_other)
  qed
  show ?thesis
    unfolding filled_def
  proof (intro allI impI)
    fix a b
    assume a: "a \<le> length str2" and b: "b \<le> length str1"
      and c: "a < 1 \<or> b = 0 \<or> a = 1 \<and> b \<le> 0"
    show "initMatrix str1 str2 (a, b) = Some (prefixDist str1 str2 a b)"
    proof (cases "a = 0")
      case True
      then show ?thesis using row0 [OF b] b by (simp add: prefixDist_0_left)
    next
      case False
      with c have "b = 0" by auto
      with False a show ?thesis using col0 [of a] by (simp add: prefixDist_0_right)
    qed
  qed
qed

lemma fillCell_filled:
  assumes "filled str1 str2 m i (j - 1)" and "1 \<le> i" "i \<le> length str2" "1 \<le> j" "j \<le> length str1"
  shows "filled str1 str2 (fillCell str1 str2 i m j) i j"
proof -
  obtain i' j' where ij: "i = Suc i'" "j = Suc j'"
    using assms(2,4) by (metis One_nat_def Suc_le_D)
  have lt: "i' < length str2" "j' < length str1" using assms(3,5) ij by simp_all
  note known = assms(1) [unfolded filled_def, rule_format]
  have diag: "m (i', j') = Some (prefixDist str1 str2 i' j')"
    using lt ij by (intro known) simp_all
  have left: "m (i, j') = Some (prefixDist str1 str2 i j')"
    using lt ij assms(3) by (intro known) simp_all
  have up: "m (i', j) = Some (prefixDist str1 str2 i' j)"
    using lt ij assms(5) by (intro known) simp_all
  have new: "fillCell str1 str2 i m j (i, j) = Some (prefixDist str1 str2 i j)"
    using diag left up lt
    by (simp add: fillCell_def ij minPlus1_def prefixDist_Suc)
  have old: "fillCell str1 str2 i m j (a, b) = m (a, b)" if "(a, b) \<noteq> (i, j)" for a b
    using that by (auto simp: fillCell_def)
  show ?thesis
    unfolding filled_def
  proof (intro allI impI)
    fix a b
    assume a: "a \<le> length str2" and b: "b \<le> length str1"
      and c: "a < i \<or> b = 0 \<or> a = i \<and> b \<le> j"
    show "fillCell str1 str2 i m j (a, b) = Some (prefixDist str1 str2 a b)"
    proof (cases "(a, b) = (i, j)")
      case True
      then show ?thesis using new by simp
    next
      case False
      with c have "a < i \<or> b = 0 \<or> a = i \<and> b \<le> j - 1" by auto
      with assms(1) a b have "m (a, b) = Some (prefixDist str1 str2 a b)"
        unfolding filled_def by blast
      with old [OF False] show ?thesis by simp
    qed
  qed
qed

lemma fillRow_prefix:
  assumes "filled str1 str2 m i 0" and "1 \<le> i" "i \<le> length str2"
  shows "k \<le> length str1 \<Longrightarrow> filled str1 str2 (foldl (fillCell str1 str2 i) m [1..<Suc k]) i k"
proof (induction k)
  case 0
  then show ?case using assms(1) by simp
next
  case (Suc k)
  then have "filled str1 str2 (foldl (fillCell str1 str2 i) m [1..<Suc k]) i (Suc k - 1)" by simp
  then have "filled str1 str2
      (fillCell str1 str2 i (foldl (fillCell str1 str2 i) m [1..<Suc k]) (Suc k)) i (Suc k)"
    using assms(2,3) Suc.prems by (intro fillCell_filled) simp_all
  then show ?case by simp
qed

lemma fillRow_filled:
  assumes "filled str1 str2 m i 0" and "1 \<le> i" "i \<le> length str2"
  shows "filled str1 str2 (fillRow str1 str2 m i) (Suc i) 0"
proof -
  have "filled str1 str2 (fillRow str1 str2 m i) i (length str1)"
    unfolding fillRow_def using assms by (intro fillRow_prefix) simp_all
  then show ?thesis unfolding filled_def by (auto simp: less_Suc_eq)
qed

lemma fillRows_filled:
  "k \<le> length str2 \<Longrightarrow>
   filled str1 str2 (foldl (fillRow str1 str2) (initMatrix str1 str2) [1..<Suc k]) (Suc k) 0"
proof (induction k)
  case 0
  then show ?case using initMatrix_filled [of str1 str2] by simp
next
  case (Suc k)
  then have "filled str1 str2 (foldl (fillRow str1 str2) (initMatrix str1 str2) [1..<Suc k]) (Suc k) 0"
    by simp
  then have "filled str1 str2
      (fillRow str1 str2 (foldl (fillRow str1 str2) (initMatrix str1 str2) [1..<Suc k]) (Suc k))
      (Suc (Suc k)) 0"
    using Suc.prems by (intro fillRow_filled) simp_all
  then show ?case by simp
qed

lemma levenshteinDistance_editRec:
  "levenshteinDistance str1 str2 = Some (editRec (rev str2) (rev str1))"
proof -
  have "filled str1 str2
      (foldl (fillRow str1 str2) (initMatrix str1 str2) [1..<Suc (length str2)])
      (Suc (length str2)) 0"
    by (rule fillRows_filled) simp
  then have "foldl (fillRow str1 str2) (initMatrix str1 str2) [1..<Suc (length str2)]
      (length str2, length str1) = Some (prefixDist str1 str2 (length str2) (length str1))"
    unfolding filled_def by simp
  then show ?thesis by (simp add: levenshteinDistance_def prefixDist_def)
qed

lemma levenshteinDistance_sym: "levenshteinDistance a b = levenshteinDistance b a"
  by (simp add: levenshteinDistance_editRec editRec_sym)


section \<open>The name similarity\<close>






section \<open>The eligibility assessor\<close>














section \<open>The cross-field validator\<close>

lemma validateExpiryDate_cases:
  "fst (validateExpiryDate host clk n s) =
     (case parseISO host s of
        Inl e \<Rightarrow> \<lparr> field = js ''Expiry Date'', status = Fail,
                   message = js ''Unable to parse expiry date'' \<rparr>
      | Inr None \<Rightarrow> \<lparr> field = js ''Expiry Date'', status = Pass,
                      message = js ''Document is valid'' \<rparr>
      | Inr (Some t) \<Rightarrow>
          if t < clk n
          then \<lparr> field = js ''Expiry Date'', status = Fail, message = js ''Document has expired'' \<rparr>
          else \<lparr> field = js ''Expiry Date'', status = Pass, message = js ''Document is valid'' \<rparr>)"
  by (simp add: validateExpiryDate_def new_Date_def isBefore_def split: sum.splits option.splits)

text \<open>
  C4. The check of \<open>validateExpiryDate\<close> is decided by what \<^verbatim>\<open>parseISO\<close> does: the message
  \<^verbatim>\<open>Unable to parse expiry date\<close> is given only when it throws. For a string that it cannot
  parse, such as 2030-13-45, \<^verbatim>\<open>parseISO\<close> of date-fns returns an \<^verbatim>\<open>Invalid Date\<close> and throws
  nothing: the comparison with the current time is false and the check passes with the
  message \<^verbatim>\<open>Document is valid\<close>.
\<close>

theorem validateExpiryDate_unparseable:
  "fst (validateExpiryDate host clk n s) =
     (case parseISO host s of
        Inl e \<Rightarrow> \<lparr> field = js ''Expiry Date'', status = Fail,
                   message = js ''Unable to parse expiry date'' \<rparr>
      | Inr None \<Rightarrow> \<lparr> field = js ''Expiry Date'', status = Pass,
                      message = js ''Document is valid'' \<rparr>
      | Inr (Some t) \<Rightarrow>
          if t < clk n
          then \<lparr> field = js ''Expiry Date'', status = Fail, message = js ''Document has expired'' \<rparr>
          else \<lparr> field = js ''Expiry Date'', status = Pass, message = js ''Document is valid'' \<rparr>)
   \<and> parseISO fixtureHost (js ''2030-13-45'') = Inr None
   \<and> fst (validateExpiryDate fixtureHost clk n (js ''2030-13-45''))
       = \<lparr> field = js ''Expiry Date'', status = Pass, message = js ''Document is valid'' \<rparr>"
  by (simp add: validateExpiryDate_cases fixtureHost_def js_def)

text \<open>
  Such a date has the format \<^verbatim>\<open>YYYY-MM-DD\<close>, so that both checks of the expiry date pass.
\<close>

lemma validateDocument_unparseable_expiry:
  "validateDocument fixtureHost clk
     (noFields \<lparr> ef_expiryDate := Some \<lparr> field_value = js ''2030-13-45'', field_confidence = Num 70 \<rparr> \<rparr>)
     None None None
   = Inr [\<lparr> field = js ''Expiry Date'', status = Pass,
             message = js ''Date format is valid (ISO 8601)'' \<rparr>,
          \<lparr> field = js ''Expiry Date'', status = Pass, message = js ''Document is valid'' \<rparr>]"
  by (simp add: validateDocument_def dateChecks_def mrzChecks_def formChecks_def ageChecks_def
      nationalityChecks_def validityChecks_def validateExpiryDate_def validateDateFormat_def
      new_Date_def isBefore_def truthyValue_def noFields_def fixtureHost_def js_def isDigit_def)













text \<open>
  C10. A policy whose \<open>minAge\<close>, \<open>maxAge\<close> or \<open>minPassportValidity\<close> is 0 yields the checks
  of the policy in which that bound is absent, whatever the other inputs are.
\<close>

theorem zero_bound_is_absent:
  "validateDocument host clk x mrz form (Some (pol \<lparr> minAge := Some (Num 0) \<rparr>))
     = validateDocument host clk x mrz form (Some (pol \<lparr> minAge := None \<rparr>))
   \<and> validateDocument host clk x mrz form (Some (pol \<lparr> maxAge := Some (Num 0) \<rparr>))
     = validateDocument host clk x mrz form (Some (pol \<lparr> maxAge := None \<rparr>))
   \<and> validateDocument host clk x mrz form (Some (pol \<lparr> minPassportValidity := Some (Num 0) \<rparr>))
     = validateDocument host clk x mrz form (Some (pol \<lparr> minPassportValidity := None \<rparr>))"
proof -
  have age1: "ageChecks host clk x (Some (pol \<lparr> minAge := Some (Num 0) \<rparr>)) s
      = ageChecks host clk x (Some (pol \<lparr> minAge := None \<rparr>)) s" for s
    by (cases s) (simp add: ageChecks_def truthyNum_def Let_def split: option.splits prod.splits)
  have age2: "ageChecks host clk x (Some (pol \<lparr> maxAge := Some (Num 0) \<rparr>)) s
      = ageChecks host clk x (Some (pol \<lparr> maxAge := None \<rparr>)) s" for s
    by (cases s) (simp add: ageChecks_def truthyNum_def Let_def split: option.splits prod.splits)
  have age3: "ageChecks host clk x (Some (pol \<lparr> minPassportValidity := v \<rparr>)) s
      = ageChecks host clk x (Some pol) s" for s v
    by (cases s) (simp add: ageChecks_def Let_def split: option.splits prod.splits)
  have nat1: "nationalityChecks x (Some (pol \<lparr> minAge := v \<rparr>)) cs = nationalityChecks x (Some pol) cs"
    and nat2: "nationalityChecks x (Some (pol \<lparr> maxAge := v \<rparr>)) cs = nationalityChecks x (Some pol) cs"
    and nat3: "nationalityChecks x (Some (pol \<lparr> minPassportValidity := v \<rparr>)) cs
      = nationalityChecks x (Some pol) cs" for v cs
    by (simp_all add: nationalityChecks_def Let_def split: option.splits)
  have val1: "validityChecks host clk x (Some (pol \<lparr> minAge := v \<rparr>)) s
      = validityChecks host clk x (Some pol) s"
    and val2: "validityChecks host clk x (Some (pol \<lparr> maxAge := v \<rparr>)) s
      = validityChecks host clk x (Some pol) s" for v s
    by (cases s; simp add: validityChecks_def Let_def split: option.splits sum.splits prod.splits)+
  have val3: "validityChecks host clk x (Some (pol \<lparr> minPassportValidity := Some (Num 0) \<rparr>)) s
      = validityChecks host clk x (Some (pol \<lparr> minPassportValidity := None \<rparr>)) s" for s
    by (cases s) (simp add: validityChecks_def truthyNum_def Let_def split: option.splits)
  show ?thesis
    by (simp add: validateDocument_def age1 age2 age3 nat1 nat2 nat3 val1 val2 val3)
qed

end
